theory Spec2Isabelle
  imports Main "HOL-Library.Word" "HOL-Library.AList"
begin

section \<open>Torrent metainfo: loading, recovery decoding and accessors\<close>

text \<open>
  A shallow embedding of \<^verbatim>\<open>metainfo/metainfo.go\<close>. Go strings and byte slices are
  \<open>string\<close> (a list of bytes); a nil slice and an empty slice are both \<open>[]\<close>, which is
  all the code and the encoder (\<^verbatim>\<open>omitempty\<close>) distinguish. \<^verbatim>\<open>int64\<close> is a 64-bit word.
\<close>

subsection \<open>Data model\<close>

type_synonym bytes = string
type_synonym int64 = "64 word"

text \<open>
  The dynamic value \<^verbatim>\<open>gobencode.Unmarshal\<close> returns as \<^verbatim>\<open>interface{}\<close>: an \<^verbatim>\<open>int64\<close>,
  a \<^verbatim>\<open>[]uint8\<close>, a \<^verbatim>\<open>[]interface{}\<close> or a \<^verbatim>\<open>map[string]interface{}\<close>. The map is an
  association list read with \<open>map_of\<close>; a key that is absent reads as Go's \<^verbatim>\<open>nil\<close>,
  here \<open>None\<close>.
\<close>

datatype bvalue =
    BInt int64
  | BStr bytes
  | BList "bvalue list"
  | BDict "(string \<times> bvalue) list"

type_synonym AnnounceList = "string list list"
type_synonym UrlList = "string list"

text \<open>
  Modelled from the spec: the declaration of \<^verbatim>\<open>Node\<close> is not in the source file; the
  spec calls the field "bootstrap peer nodes". No function here reads or writes it.
\<close>

type_synonym Node = string

record MetaInfo =
  InfoBytes :: bytes
  Announce :: string
  AnnounceList :: AnnounceList
  Nodes :: "Node list"
  CreationDate :: int64
  Comment :: string
  CreatedBy :: string
  Encoding :: string
  UrlList :: UrlList

text \<open>
  Modelled from the spec: the declarations of \<^verbatim>\<open>FileInfo\<close> and \<^verbatim>\<open>Info\<close> are not in the
  source file. The fields are the ones \<^verbatim>\<open>newBts\<close> assigns, with the types it asserts;
  \<^verbatim>\<open>Private\<close> is a \<^verbatim>\<open>*bool\<close>, \<open>None\<close> when nil.
\<close>

record FileInfo =
  Length :: int64
  Path :: "string list"

record Info =
  PieceLength :: int64
  Pieces :: bytes
  Name :: string
  Length :: int64
  Private :: "bool option"
  Source :: string
  Files :: "FileInfo list"

text \<open>The zero values \<^verbatim>\<open>MetaInfo{}\<close> and \<^verbatim>\<open>Info{}\<close>.\<close>

definition zero_MetaInfo :: MetaInfo where
  "zero_MetaInfo = \<lparr>InfoBytes = [], Announce = [], AnnounceList = [], Nodes = [],
     CreationDate = 0, Comment = [], CreatedBy = [], Encoding = [], UrlList = []\<rparr>"

definition zero_Info :: Info where
  "zero_Info = \<lparr>PieceLength = 0, Pieces = [], Name = [], Length = 0, Private = None,
     Source = [], Files = []\<rparr>"

subsection \<open>The codec\<close>

text \<open>
  The bencode engines are outside the source file and are parameters of the model:
  \<^item> \<open>Decode\<close>: \<^verbatim>\<open>bencode.NewDecoder(r).Decode(&mi)\<close>, the strict decode;
  \<^item> \<open>Unmarshal\<close>: \<^verbatim>\<open>gobencode.Unmarshal\<close>, the lenient decode; \<open>Inr None\<close> is a nil
    value returned without an error;
  \<^item> \<open>MarshalInfo\<close>, \<open>MarshalMetaInfo\<close>: \<^verbatim>\<open>bencode.Marshal\<close> at the two types it is
    called at. A successful encoding is a non-nil slice.
\<close>

record 'e codec =
  Decode :: "bytes \<Rightarrow> 'e + MetaInfo"
  Unmarshal :: "bytes \<Rightarrow> 'e + bvalue option"
  MarshalInfo :: "Info \<Rightarrow> 'e + bytes"
  MarshalMetaInfo :: "MetaInfo \<Rightarrow> 'e + bytes"

subsection \<open>Panics and early returns of the recovery decoder\<close>

text \<open>
  \<^verbatim>\<open>newBts\<close> leaves its body in three ways: a failed type assertion panics, a
  \<^verbatim>\<open>return nil\<close> gives up, or the body runs to its end.
\<close>

datatype abort = Panicked | ReturnedNil

definition andThen :: "abort + 'a \<Rightarrow> ('a \<Rightarrow> abort + 'b) \<Rightarrow> abort + 'b" where
  "andThen m f = (case m of Inl a \<Rightarrow> Inl a | Inr x \<Rightarrow> f x)"

text \<open>The type assertions \<^verbatim>\<open>v.([]uint8)\<close>, \<^verbatim>\<open>v.(int64)\<close> and \<^verbatim>\<open>v.([]interface{})\<close>.\<close>

definition assertBytes :: "bvalue \<Rightarrow> abort + bytes" where
  "assertBytes v = (case v of BStr s \<Rightarrow> Inr s | _ \<Rightarrow> Inl Panicked)"

definition assertInt64 :: "bvalue \<Rightarrow> abort + int64" where
  "assertInt64 v = (case v of BInt n \<Rightarrow> Inr n | _ \<Rightarrow> Inl Panicked)"

definition assertList :: "bvalue \<Rightarrow> abort + bvalue list" where
  "assertList v = (case v of BList vs \<Rightarrow> Inr vs | _ \<Rightarrow> Inl Panicked)"

text \<open>
  \<^verbatim>\<open>if x != nil { field = string(x.([]uint8)) }\<close> and the same with \<^verbatim>\<open>x.(int64)\<close>: the
  field keeps its zero value when the key is absent.
\<close>

definition optBytes :: "bvalue option \<Rightarrow> abort + bytes" where
  "optBytes x = (case x of None \<Rightarrow> Inr [] | Some v \<Rightarrow> assertBytes v)"

definition optInt64 :: "bvalue option \<Rightarrow> abort + int64" where
  "optInt64 x = (case x of None \<Rightarrow> Inr 0 | Some v \<Rightarrow> assertInt64 v)"

text \<open>\<^verbatim>\<open>for _, v := range vs { out = append(out, string(v.([]uint8))) }\<close>\<close>

fun assertBytesEach :: "bvalue list \<Rightarrow> abort + string list" where
  "assertBytesEach [] = Inr []"
| "assertBytesEach (v # vs) =
     andThen (assertBytes v) (\<lambda>s. andThen (assertBytesEach vs) (\<lambda>ss. Inr (s # ss)))"

subsection \<open>The recovery decoder\<close>

text \<open>One entry of \<^verbatim>\<open>files\<close> (the body of the loop): \<open>None\<close> when nothing is appended.\<close>

definition newBts_file :: "bvalue \<Rightarrow> abort + FileInfo option" where
  "newBts_file v =
     (case v of
        BDict fl \<Rightarrow>
          andThen (optInt64 (map_of fl ''length'')) (\<lambda>lt.
            case map_of fl ''path'' of
              None \<Rightarrow> Inr None
            | Some ifFilePath \<Rightarrow>
                andThen (case ifFilePath of BList ws \<Rightarrow> assertBytesEach ws | _ \<Rightarrow> Inr [])
                  (\<lambda>fls. Inr (if 0 < length fls
                               then Some \<lparr>FileInfo.Length = lt, Path = fls\<rparr> else None)))
      | _ \<Rightarrow> Inr None)"

text \<open>The loop over \<^verbatim>\<open>files\<close>.\<close>

fun newBts_files :: "bvalue list \<Rightarrow> abort + FileInfo list" where
  "newBts_files [] = Inr []"
| "newBts_files (v # vs) =
     andThen (newBts_file v) (\<lambda>entry.
       andThen (newBts_files vs) (\<lambda>files.
         Inr (case entry of None \<Rightarrow> files | Some f \<Rightarrow> f # files)))"

text \<open>The fields of \<^verbatim>\<open>info\<close>, in the order the code asserts them.\<close>

definition newBts_info :: "(string \<times> bvalue) list \<Rightarrow> abort + Info" where
  "newBts_info infoDe =
     andThen (optInt64 (map_of infoDe ''piece length'')) (\<lambda>pieceLength.
     andThen (case map_of infoDe ''pieces'' of
                None \<Rightarrow> Inl ReturnedNil
              | Some ifInfoPieces \<Rightarrow> assertBytes ifInfoPieces) (\<lambda>pieces.
     andThen (optBytes (map_of infoDe ''name'')) (\<lambda>name.
     andThen (optInt64 (map_of infoDe ''length'')) (\<lambda>len.
     andThen (case map_of infoDe ''private'' of
                None \<Rightarrow> Inr None
              | Some ifInfoPrivate \<Rightarrow>
                  andThen (assertInt64 ifInfoPrivate) (\<lambda>n. Inr (Some (n = 1)))) (\<lambda>private.
     andThen (optBytes (map_of infoDe ''source'')) (\<lambda>source.
     andThen (case map_of infoDe ''files'' of
                None \<Rightarrow> Inr []
              | Some ifInfoFiles \<Rightarrow>
                  (case ifInfoFiles of BList vs \<Rightarrow> newBts_files vs | _ \<Rightarrow> Inr [])) (\<lambda>files.
     Inr \<lparr>PieceLength = pieceLength, Pieces = pieces, Name = name, Length = len,
          Private = private, Source = source, Files = files\<rparr>)))))))"

text \<open>
  The body of \<^verbatim>\<open>newBts\<close> from the type switch on the decoded value to the
  reconstructed \<^verbatim>\<open>mi\<close>, before it is encoded.
\<close>

definition newBts_body :: "'e codec \<Rightarrow> bvalue \<Rightarrow> abort + MetaInfo" where
  "newBts_body c decode =
     (case decode of
        BDict miDe \<Rightarrow>
          andThen (optBytes (map_of miDe ''announce'')) (\<lambda>announce.
          andThen (case map_of miDe ''announce-list'' of
                     None \<Rightarrow> Inr []
                   | Some ifAnnounceList \<Rightarrow>
                       andThen (assertList ifAnnounceList) (\<lambda>vs.
                       andThen (assertBytesEach vs) (\<lambda>ss. Inr (map (\<lambda>s. [s]) ss))))
            (\<lambda>announceList.
          andThen (optInt64 (map_of miDe ''creation date'')) (\<lambda>creationDate.
          andThen (optBytes (map_of miDe ''comment'')) (\<lambda>comment.
          andThen (optBytes (map_of miDe ''created by'')) (\<lambda>createdBy.
          andThen (optBytes (map_of miDe ''encoding'')) (\<lambda>encoding.
          andThen (case map_of miDe ''url-list'' of
                     None \<Rightarrow> Inr []
                   | Some ifUrlList \<Rightarrow> andThen (assertList ifUrlList) assertBytesEach)
            (\<lambda>urlList.
          andThen (case map_of miDe ''info'' of
                     None \<Rightarrow> Inl ReturnedNil
                   | Some ifInfoBytes \<Rightarrow>
                       (case ifInfoBytes of
                          BDict infoDe \<Rightarrow>
                            andThen (newBts_info infoDe) (\<lambda>info.
                              Inr (case MarshalInfo c info of
                                     Inr infobts \<Rightarrow> infobts
                                   | Inl err \<Rightarrow> []))
                        | _ \<Rightarrow> Inr []))
            (\<lambda>infoBytes.
          Inr \<lparr>InfoBytes = infoBytes, Announce = announce, AnnounceList = announceList,
               Nodes = [], CreationDate = creationDate, Comment = comment,
               CreatedBy = createdBy, Encoding = encoding, UrlList = urlList\<rparr>))))))))
      | _ \<Rightarrow> Inl ReturnedNil)"

text \<open>
  \<^verbatim>\<open>newBts\<close>: the deferred \<^verbatim>\<open>recover()\<close> swallows a panic, and the named result is
  still nil then, so every abort is \<open>None\<close>.
\<close>

definition newBts :: "'e codec \<Rightarrow> bytes \<Rightarrow> bytes option" where
  "newBts c rb =
     (case Unmarshal c rb of
        Inl err \<Rightarrow> None
      | Inr None \<Rightarrow> None
      | Inr (Some decode) \<Rightarrow>
          (case newBts_body c decode of
             Inl a \<Rightarrow> None
           | Inr mi \<Rightarrow>
               (case MarshalMetaInfo c mi of
                  Inr nbts \<Rightarrow> Some nbts
                | Inl err \<Rightarrow> None)))"

subsection \<open>Loading\<close>

definition Load :: "'e codec \<Rightarrow> bytes \<Rightarrow> 'e + MetaInfo" where
  "Load c r = (case Decode c r of Inl err \<Rightarrow> Inl err | Inr mi \<Rightarrow> Inr mi)"

definition LoadBytes :: "'e codec \<Rightarrow> bytes \<Rightarrow> 'e + MetaInfo" where
  "LoadBytes c bts =
     (case Load c bts of
        Inl err \<Rightarrow>
          (case newBts c bts of
             Some nbts \<Rightarrow> Load c nbts
           | None \<Rightarrow> Inl err)
      | Inr mi \<Rightarrow> Inr mi)"

subsection \<open>Accessors\<close>

text \<open>\<^verbatim>\<open>SetDefaults\<close>; \<open>now\<close> is what \<^verbatim>\<open>time.Now().Unix()\<close> returns.\<close>

definition SetDefaults :: "int64 \<Rightarrow> MetaInfo \<Rightarrow> MetaInfo" where
  "SetDefaults now mi =
     mi\<lparr>Comment := [], CreatedBy := ''github.com/anacrolix/torrent'', CreationDate := now\<rparr>"

text \<open>
  Modelled from the spec: \<^verbatim>\<open>AnnounceList.OverridesAnnounce\<close> is not in the source file.
  The spec: the tiered list "already contains the primary announce URL anywhere within
  its first tier".
\<close>

definition OverridesAnnounce :: "AnnounceList \<Rightarrow> string \<Rightarrow> bool" where
  "OverridesAnnounce al announce =
     (case al of [] \<Rightarrow> False | tier # tiers \<Rightarrow> announce \<in> set tier)"

definition UpvertedAnnounceList :: "MetaInfo \<Rightarrow> AnnounceList" where
  "UpvertedAnnounceList mi =
     (if OverridesAnnounce (AnnounceList mi) (Announce mi) then AnnounceList mi
      else if Announce mi \<noteq> [] then [[Announce mi]]
      else [])"






subsection \<open>Well-formed file entries\<close>


subsection \<open>A codec for the examples\<close>

text \<open>
  The theorems below hold for every codec. Where one is evaluated on a concrete
  document, the codec is this one: it knows the documents and values listed here, with
  their bencode, and rejects everything else. The strict decode rejects a \<^verbatim>\<open>nodes\<close>
  value that is not a list, which the recovery decoder never reads.
\<close>

definition example_Decode :: "bytes \<Rightarrow> string + MetaInfo" where
  "example_Decode r =
     (if r = ''de'' then Inr zero_MetaInfo
      else if r = ''d4:infod4:name0:12:piece lengthi0e6:pieces0:ee''
        then Inr (zero_MetaInfo\<lparr>InfoBytes := ''d4:name0:12:piece lengthi0e6:pieces0:e''\<rparr>)
      else Inl ''bencode: decode error'')"

definition example_Unmarshal :: "bytes \<Rightarrow> string + bvalue option" where
  "example_Unmarshal rb =
     (if rb = ''i5e'' then Inr (Some (BInt 5))
      else if rb = ''de'' then Inr (Some (BDict []))
      else if rb = ''d5:nodesi5ee'' then Inr (Some (BDict [(''nodes'', BInt 5)]))
      else if rb = ''d4:infodee'' then Inr (Some (BDict [(''info'', BDict [])]))
      else if rb = ''d4:infod6:piecesi5eee''
        then Inr (Some (BDict [(''info'', BDict [(''pieces'', BInt 5)])]))
      else if rb = ''d4:infod5:filesld6:lengthi7e4:pathl1:aeed6:length1:xee6:pieces0:ee''
        then Inr (Some (BDict [(''info'', BDict
               [(''files'', BList [BDict [(''length'', BInt 7), (''path'', BList [BStr ''a''])],
                                   BDict [(''length'', BStr ''x'')]]),
                (''pieces'', BStr [])])]))
      else if rb = ''d13:creation datei7e4:infod6:pieces0:e5:nodesi5ee''
        then Inr (Some (BDict [(''creation date'', BInt 7),
                               (''info'', BDict [(''pieces'', BStr [])]),
                               (''nodes'', BInt 5)]))
      else if rb = ''d4:infoi5e5:nodesi5ee''
        then Inr (Some (BDict [(''info'', BInt 5), (''nodes'', BInt 5)]))
      else if rb = ''d4:infod6:pieces0:e5:nodesi5ee''
        then Inr (Some (BDict [(''info'', BDict [(''pieces'', BStr [])]),
                               (''nodes'', BInt 5)]))
      else if rb = ''d13:creation date1:x4:infod6:pieces0:e5:nodesi5ee''
        then Inr (Some (BDict [(''creation date'', BStr ''x''),
                               (''info'', BDict [(''pieces'', BStr [])]),
                               (''nodes'', BInt 5)]))
      else Inl ''bencode: syntax error'')"

definition example_MarshalInfo :: "Info \<Rightarrow> string + bytes" where
  "example_MarshalInfo info =
     (if info = zero_Info then Inr ''d4:name0:12:piece lengthi0e6:pieces0:e''
      else if info = zero_Info\<lparr>Files := [\<lparr>FileInfo.Length = 7, Path = [''a'']\<rparr>]\<rparr>
        then Inr ''d5:filesld6:lengthi7e4:pathl1:aeee4:name0:12:piece lengthi0e6:pieces0:e''
      else Inl ''bencode: unsupported value'')"

definition example_MarshalMetaInfo :: "MetaInfo \<Rightarrow> string + bytes" where
  "example_MarshalMetaInfo mi =
     (if mi = zero_MetaInfo\<lparr>InfoBytes := InfoBytes mi\<rparr>
        then Inr (if InfoBytes mi = [] then ''de'' else ''d4:info'' @ InfoBytes mi @ ''e'')
      else Inl ''bencode: unsupported value'')"

definition example_codec :: "string codec" where
  "example_codec = \<lparr>Decode = example_Decode, Unmarshal = example_Unmarshal,
     MarshalInfo = example_MarshalInfo, MarshalMetaInfo = example_MarshalMetaInfo\<rparr>"

section \<open>Properties\<close>

subsection \<open>Sequencing and assertions\<close>

lemma andThen_Inl [simp]: "andThen (Inl a) f = Inl a"
  by (simp add: andThen_def)

lemma andThen_Inr [simp]: "andThen (Inr x) f = f x"
  by (simp add: andThen_def)

lemma andThen_unit [simp]: "andThen m Inr = m"
  by (cases m) simp_all

lemma andThen_eq_Inr: "andThen m f = Inr y \<longleftrightarrow> (\<exists>x. m = Inr x \<and> f x = Inr y)"
  by (cases m) simp_all

lemma assertBytes_eq_Inr: "assertBytes v = Inr s \<longleftrightarrow> v = BStr s"
  by (cases v) (simp_all add: assertBytes_def)

lemma assertInt64_eq_Inr: "assertInt64 v = Inr n \<longleftrightarrow> v = BInt n"
  by (cases v) (simp_all add: assertInt64_def)

lemma assertInt64_panics: "\<forall>n. v \<noteq> BInt n \<Longrightarrow> assertInt64 v = Inl Panicked"
  by (cases v) (simp_all add: assertInt64_def)

lemma assertBytes_aborts: "assertBytes v = Inl a \<Longrightarrow> a = Panicked"
  by (cases v) (simp_all add: assertBytes_def)

lemma optBytes_aborts: "optBytes x = Inl a \<Longrightarrow> a = Panicked"
  by (cases x) (auto simp: optBytes_def dest: assertBytes_aborts)

lemma assertList_aborts: "assertList v = Inl a \<Longrightarrow> a = Panicked"
  by (cases v) (simp_all add: assertList_def)

lemma assertBytesEach_aborts: "assertBytesEach vs = Inl a \<Longrightarrow> a = Panicked"
proof (induction vs)
  case Nil
  then show ?case by simp
next
  case (Cons v vs)
  show ?case
  proof (cases "assertBytes v")
    case (Inl b)
    with Cons.prems show ?thesis by (auto dest: assertBytes_aborts)
  next
    case (Inr s)
    with Cons show ?thesis by (cases "assertBytesEach vs") simp_all
  qed
qed

text \<open>Definitions unfolded to evaluate the model on a concrete document.\<close>

lemmas eval_defs =
  newBts_def newBts_body_def newBts_info_def newBts_file_def
  optBytes_def optInt64_def assertBytes_def assertInt64_def assertList_def
  Load_def LoadBytes_def zero_MetaInfo_def zero_Info_def
  example_codec_def example_Decode_def example_Unmarshal_def
  example_MarshalInfo_def example_MarshalMetaInfo_def

subsection \<open>What a successful reconstruction implies\<close>

lemma newBts_info_pieces:
  assumes "newBts_info infoDe = Inr info"
  shows "map_of infoDe ''pieces'' = Some (BStr (Pieces info))"
  using assms unfolding newBts_info_def
  by (auto simp: andThen_eq_Inr assertBytes_eq_Inr split: option.splits)

lemma newBts_info_private:
  assumes "newBts_info infoDe = Inr info"
  shows "Private info =
    (case map_of infoDe ''private'' of None \<Rightarrow> None | Some v \<Rightarrow> Some (v = BInt 1))"
  using assms unfolding newBts_info_def
  by (auto simp: andThen_eq_Inr assertInt64_eq_Inr split: option.splits)

lemma newBts_info_private_typed:
  assumes "newBts_info infoDe = Inr info"
  shows "map_of infoDe ''private'' = None \<or> (\<exists>n. map_of infoDe ''private'' = Some (BInt n))"
  using assms unfolding newBts_info_def
  by (auto simp: andThen_eq_Inr assertInt64_eq_Inr split: option.splits)

lemma newBts_body_info:
  assumes "newBts_body c decode = Inr mi"
  shows "\<exists>miDe ifInfo. decode = BDict miDe \<and> map_of miDe ''info'' = Some ifInfo \<and>
           (\<forall>infoDe. ifInfo = BDict infoDe \<longrightarrow>
              (\<exists>info. newBts_info infoDe = Inr info \<and>
                 InfoBytes mi = (case MarshalInfo c info of Inr b \<Rightarrow> b | Inl e \<Rightarrow> [])))"
  using assms unfolding newBts_body_def
  by (auto simp: andThen_eq_Inr split: bvalue.splits option.splits)

lemma newBts_Some:
  assumes "newBts c rb = Some nbts"
  shows "\<exists>decode mi. Unmarshal c rb = Inr (Some decode) \<and> newBts_body c decode = Inr mi \<and>
           MarshalMetaInfo c mi = Inr nbts"
  using assms unfolding newBts_def
  by (auto split: sum.splits option.splits)

lemma newBts_body_fails:
  assumes "Unmarshal c rb = Inr (Some decode)" and "newBts_body c decode = Inl a"
  shows "newBts c rb = None"
  using assms by (simp add: newBts_def)

subsection \<open>The file list\<close>



lemma newBts_file_Path:
  assumes "newBts_file v = Inr (Some f)"
  shows "Path f \<noteq> []"
proof (cases v)
  case (BDict fl)
  with assms obtain lt where
    "(case map_of fl ''path'' of
        None \<Rightarrow> Inr None
      | Some ifFilePath \<Rightarrow>
          andThen (case ifFilePath of BList ws \<Rightarrow> assertBytesEach ws | _ \<Rightarrow> Inr [])
            (\<lambda>fls. Inr (if 0 < length fls
                         then Some \<lparr>FileInfo.Length = lt, Path = fls\<rparr> else None))) = Inr (Some f)"
    by (auto simp: newBts_file_def andThen_eq_Inr)
  then obtain fls where "(if 0 < length fls
      then Some \<lparr>FileInfo.Length = lt, Path = fls\<rparr> else None) = Some f"
    by (auto simp: andThen_eq_Inr split: option.splits)
  then show ?thesis by (auto split: if_splits)
qed (use assms in \<open>simp_all add: newBts_file_def\<close>)

lemma newBts_files_Path:
  assumes "newBts_files vs = Inr fs" and "f \<in> set fs"
  shows "Path f \<noteq> []"
  using assms
proof (induction vs arbitrary: fs)
  case Nil
  then show ?case by simp
next
  case (Cons v vs)
  from Cons.prems(1) obtain entry rest where
    e: "newBts_file v = Inr entry" and r: "newBts_files vs = Inr rest"
    and fs: "fs = (case entry of None \<Rightarrow> rest | Some g \<Rightarrow> g # rest)"
    by (auto simp: andThen_eq_Inr)
  show ?case
  proof (cases entry)
    case None
    with fs Cons.prems(2) r Cons.IH show ?thesis by simp
  next
    case (Some g)
    with fs Cons.prems(2) have "f = g \<or> f \<in> set rest" by auto
    then show ?thesis
    proof
      assume "f = g"
      with e Some show ?thesis by (simp add: newBts_file_Path)
    next
      assume "f \<in> set rest"
      with r Cons.IH show ?thesis by simp
    qed
  qed
qed





subsection \<open>The creation date\<close>

text \<open>
  Every abort before the creation date is read is a panic, and so is the assertion on the
  date itself.
\<close>

lemma newBts_body_creation_date_panics:
  assumes "map_of miDe ''creation date'' = Some v" and "\<forall>n. v \<noteq> BInt n"
  shows "newBts_body c (BDict miDe) = Inl Panicked"
proof -
  have date: "optInt64 (map_of miDe ''creation date'') = Inl Panicked"
    using assms by (simp add: optInt64_def assertInt64_panics)
  show ?thesis
  proof (cases "optBytes (map_of miDe ''announce'')")
    case (Inl a)
    then show ?thesis by (simp add: newBts_body_def optBytes_aborts)
  next
    case announce: (Inr s)
    show ?thesis
    proof (cases "map_of miDe ''announce-list''")
      case None
      with announce date show ?thesis by (simp add: newBts_body_def)
    next
      case (Some ifAnnounceList)
      show ?thesis
      proof (cases "assertList ifAnnounceList")
        case (Inl a)
        with announce Some show ?thesis by (simp add: newBts_body_def assertList_aborts)
      next
        case vs: (Inr vs)
        show ?thesis
        proof (cases "assertBytesEach vs")
          case (Inl a)
          with announce Some vs show ?thesis
            by (simp add: newBts_body_def assertBytesEach_aborts)
        next
          case (Inr ss)
          with announce Some vs date show ?thesis by (simp add: newBts_body_def)
        qed
      qed
    qed
  qed
qed

lemma newBts_body_creation_date:
  assumes "newBts_body c (BDict miDe) = Inr mi"
  shows "map_of miDe ''creation date'' = None \<and> CreationDate mi = 0 \<or>
         map_of miDe ''creation date'' = Some (BInt (CreationDate mi))"
  using assms unfolding newBts_body_def
  by (auto simp: andThen_eq_Inr optInt64_def assertInt64_eq_Inr split: option.splits)

subsection \<open>The tracker loop\<close>



section \<open>The claims\<close>

subsection \<open>Loading\<close>

text \<open>
  C1. When the strict decode of a byte sequence fails and the recovery decoder yields no
  candidate, \<^verbatim>\<open>LoadBytes\<close> returns the error of that first strict decode.
\<close>

theorem LoadBytes_keeps_strict_error:
  assumes "Load c bts = Inl err" and "newBts c bts = None"
  shows "LoadBytes c bts = Inl err"
  using assms by (simp add: LoadBytes_def)

theorem LoadBytes_keeps_strict_error_witness:
  "Load example_codec ''i5e'' = Inl ''bencode: decode error'' \<and>
   newBts example_codec ''i5e'' = None \<and>
   LoadBytes example_codec ''i5e'' = Inl ''bencode: decode error''"
proof -
  have strict: "Load example_codec ''i5e'' = Inl ''bencode: decode error''"
    by (simp add: Load_def example_codec_def example_Decode_def)
  have recovery: "newBts example_codec ''i5e'' = None"
    by (simp add: newBts_def newBts_body_def example_codec_def example_Unmarshal_def)
  from LoadBytes_keeps_strict_error [OF strict recovery] strict recovery
  show ?thesis by simp
qed

subsection \<open>Documents the recovery decoder gives up on\<close>

text \<open>
  C2. When the decoded top-level map has no \<^verbatim>\<open>info\<close>, or its \<^verbatim>\<open>info\<close> map has no
  \<^verbatim>\<open>pieces\<close>, or \<^verbatim>\<open>pieces\<close> is not a byte string, \<^verbatim>\<open>newBts\<close> returns nil.
\<close>

theorem newBts_nil_without_info_or_pieces:
  assumes tree: "Unmarshal c rb = Inr (Some (BDict miDe))"
    and missing:
      "map_of miDe ''info'' = None \<or>
       (\<exists>infoDe. map_of miDe ''info'' = Some (BDict infoDe) \<and>
          (map_of infoDe ''pieces'' = None \<or>
           (\<exists>v. map_of infoDe ''pieces'' = Some v \<and> (\<forall>s. v \<noteq> BStr s))))"
  shows "newBts c rb = None"
proof (cases "newBts_body c (BDict miDe)")
  case (Inl a)
  with tree show ?thesis by (rule newBts_body_fails)
next
  case (Inr mi)
  from newBts_body_info [OF Inr] obtain ifInfo where
    present: "map_of miDe ''info'' = Some ifInfo"
    and shaped: "\<forall>infoDe. ifInfo = BDict infoDe \<longrightarrow> (\<exists>info. newBts_info infoDe = Inr info \<and>
        InfoBytes mi = (case MarshalInfo c info of Inr b \<Rightarrow> b | Inl e \<Rightarrow> []))"
    by auto
  from missing present obtain infoDe where
    m: "ifInfo = BDict infoDe"
    and p: "map_of infoDe ''pieces'' = None \<or>
            (\<exists>v. map_of infoDe ''pieces'' = Some v \<and> (\<forall>s. v \<noteq> BStr s))"
    by auto
  from shaped m obtain info where "newBts_info infoDe = Inr info" by auto
  then have "map_of infoDe ''pieces'' = Some (BStr (Pieces info))"
    by (rule newBts_info_pieces)
  with p have False by auto
  then show ?thesis ..
qed

text \<open>One document for each way of lacking the digest blob.\<close>

theorem newBts_nil_without_info_or_pieces_witness:
  "map_of [(''nodes'', BInt 5)] ''info'' = None \<and>
   newBts example_codec ''d5:nodesi5ee'' = None \<and>
   map_of [] ''pieces'' = (None :: bvalue option) \<and>
   newBts example_codec ''d4:infodee'' = None \<and>
   map_of [(''pieces'', BInt 5)] ''pieces'' = Some (BInt 5) \<and>
   newBts example_codec ''d4:infod6:piecesi5eee'' = None"
proof -
  have no_info: "Unmarshal example_codec ''d5:nodesi5ee'' = Inr (Some (BDict [(''nodes'', BInt 5)]))"
    by (simp add: example_codec_def example_Unmarshal_def)
  have no_pieces: "Unmarshal example_codec ''d4:infodee'' = Inr (Some (BDict [(''info'', BDict [])]))"
    by (simp add: example_codec_def example_Unmarshal_def)
  have int_pieces: "Unmarshal example_codec ''d4:infod6:piecesi5eee'' =
      Inr (Some (BDict [(''info'', BDict [(''pieces'', BInt 5)])]))"
    by (simp add: example_codec_def example_Unmarshal_def)
  have "newBts example_codec ''d5:nodesi5ee'' = None"
    by (rule newBts_nil_without_info_or_pieces [OF no_info]) simp
  moreover have "newBts example_codec ''d4:infodee'' = None"
    by (rule newBts_nil_without_info_or_pieces [OF no_pieces]) simp
  moreover have "newBts example_codec ''d4:infod6:piecesi5eee'' = None"
    by (rule newBts_nil_without_info_or_pieces [OF int_pieces]) simp
  ultimately show ?thesis by simp
qed

subsection \<open>Loading through the recovery path\<close>

text \<open>
  C3. The claim is that a descriptor returned through the recovery path is complete, and
  in particular that none is returned when \<^verbatim>\<open>info\<close> is present but not a map. The code
  misses that case: the type switch on \<^verbatim>\<open>info\<close> has no default, where an absent
  \<^verbatim>\<open>info\<close>, an absent \<^verbatim>\<open>pieces\<close> and a top level that is not a map all return nil. For
  the document below, whose \<^verbatim>\<open>info\<close> is the integer 5, the strict decode fails, the
  recovery decoder encodes a descriptor without \<^verbatim>\<open>info\<close>, and \<^verbatim>\<open>LoadBytes\<close> returns a
  descriptor whose \<^verbatim>\<open>InfoBytes\<close> is empty, with no error.
\<close>

theorem LoadBytes_info_not_map:
  "Load example_codec ''d4:infoi5e5:nodesi5ee'' = Inl ''bencode: decode error'' \<and>
   Unmarshal example_codec ''d4:infoi5e5:nodesi5ee'' =
     Inr (Some (BDict [(''info'', BInt 5), (''nodes'', BInt 5)])) \<and>
   newBts_body example_codec (BDict [(''info'', BInt 5), (''nodes'', BInt 5)]) =
     Inr zero_MetaInfo \<and>
   newBts example_codec ''d4:infoi5e5:nodesi5ee'' = Some ''de'' \<and>
   LoadBytes example_codec ''d4:infoi5e5:nodesi5ee'' = Inr zero_MetaInfo \<and>
   InfoBytes zero_MetaInfo = []"
  by (simp add: eval_defs)

text \<open>
  C4. When the strict decode accepts a byte sequence, \<^verbatim>\<open>LoadBytes\<close> returns the same
  descriptor as \<^verbatim>\<open>Load\<close> and no error, whatever the lenient decoder and the encoders
  would do: the recovery path has no part in the result.
\<close>

theorem LoadBytes_strict_success:
  assumes "Load c bts = Inr mi"
  shows "LoadBytes c bts = Inr mi \<and> LoadBytes c bts = Load c bts \<and>
    (\<forall>u mInfo mMeta.
       LoadBytes (c\<lparr>Unmarshal := u, MarshalInfo := mInfo, MarshalMetaInfo := mMeta\<rparr>) bts = Inr mi)"
  using assms by (simp add: LoadBytes_def Load_def)

theorem LoadBytes_strict_success_witness:
  "Load example_codec ''de'' = Inr zero_MetaInfo \<and>
   LoadBytes example_codec ''de'' = Inr zero_MetaInfo \<and>
   LoadBytes (example_codec\<lparr>Unmarshal := (\<lambda>rb. Inl ''unused''),
       MarshalInfo := (\<lambda>info. Inl ''unused''),
       MarshalMetaInfo := (\<lambda>mi. Inl ''unused'')\<rparr>) ''de'' = Inr zero_MetaInfo"
proof -
  have strict: "Load example_codec ''de'' = Inr zero_MetaInfo"
    by (simp add: Load_def example_codec_def example_Decode_def)
  from LoadBytes_strict_success [OF strict] strict show ?thesis by blast
qed

subsection \<open>Fields read by the recovery decoder\<close>

text \<open>
  C5 (as amended). A \<^verbatim>\<open>creation date\<close> that is not an integer is not tolerated by the
  recovery decoder: the assertion \<^verbatim>\<open>ifCreationDate.(int64)\<close> panics, the deferred
  \<^verbatim>\<open>recover\<close> swallows the panic, and \<^verbatim>\<open>newBts\<close> returns nil for the whole document.
  Whenever the recovery decoder does reconstruct a descriptor, its creation date is the
  integer of the document, or zero when the key is absent.
\<close>

theorem newBts_creation_date:
  assumes tree: "Unmarshal c rb = Inr (Some (BDict miDe))"
  shows "(\<forall>v. map_of miDe ''creation date'' = Some v \<and> (\<forall>n. v \<noteq> BInt n) \<longrightarrow>
            newBts_body c (BDict miDe) = Inl Panicked \<and> newBts c rb = None) \<and>
         (\<forall>mi. newBts_body c (BDict miDe) = Inr mi \<longrightarrow>
            map_of miDe ''creation date'' = None \<and> CreationDate mi = 0 \<or>
            map_of miDe ''creation date'' = Some (BInt (CreationDate mi)))"
proof (intro conjI allI impI)
  fix v
  assume "map_of miDe ''creation date'' = Some v \<and> (\<forall>n. v \<noteq> BInt n)"
  then show "newBts_body c (BDict miDe) = Inl Panicked"
    by (simp add: newBts_body_creation_date_panics)
  with tree show "newBts c rb = None"
    by (rule newBts_body_fails)
next
  fix mi
  assume "newBts_body c (BDict miDe) = Inr mi"
  then show "map_of miDe ''creation date'' = None \<and> CreationDate mi = 0 \<or>
      map_of miDe ''creation date'' = Some (BInt (CreationDate mi))"
    by (rule newBts_body_creation_date)
qed

text \<open>A date that is a byte string aborts; the date 7 is ingested.\<close>

theorem newBts_creation_date_witness:
  "newBts_body example_codec (BDict [(''creation date'', BStr ''x''),
       (''info'', BDict [(''pieces'', BStr [])]), (''nodes'', BInt 5)]) = Inl Panicked \<and>
   newBts example_codec ''d13:creation date1:x4:infod6:pieces0:e5:nodesi5ee'' = None \<and>
   newBts_body example_codec (BDict [(''creation date'', BInt 7),
       (''info'', BDict [(''pieces'', BStr [])]), (''nodes'', BInt 5)]) =
     Inr (zero_MetaInfo\<lparr>InfoBytes := ''d4:name0:12:piece lengthi0e6:pieces0:e'',
                         CreationDate := 7\<rparr>) \<and>
   CreationDate (zero_MetaInfo\<lparr>InfoBytes := ''d4:name0:12:piece lengthi0e6:pieces0:e'',
                         CreationDate := 7\<rparr>) = 7"
proof -
  have bad: "Unmarshal example_codec ''d13:creation date1:x4:infod6:pieces0:e5:nodesi5ee'' =
     Inr (Some (BDict [(''creation date'', BStr ''x''),
                       (''info'', BDict [(''pieces'', BStr [])]), (''nodes'', BInt 5)]))"
    by (simp add: example_codec_def example_Unmarshal_def)
  have good: "Unmarshal example_codec ''d13:creation datei7e4:infod6:pieces0:e5:nodesi5ee'' =
     Inr (Some (BDict [(''creation date'', BInt 7),
                       (''info'', BDict [(''pieces'', BStr [])]), (''nodes'', BInt 5)]))"
    by (simp add: example_codec_def example_Unmarshal_def)
  have ingested: "newBts_body example_codec (BDict [(''creation date'', BInt 7),
       (''info'', BDict [(''pieces'', BStr [])]), (''nodes'', BInt 5)]) =
     Inr (zero_MetaInfo\<lparr>InfoBytes := ''d4:name0:12:piece lengthi0e6:pieces0:e'',
                         CreationDate := 7\<rparr>)"
    by (simp add: eval_defs)
  from newBts_creation_date [OF bad]
  have "newBts_body example_codec (BDict [(''creation date'', BStr ''x''),
       (''info'', BDict [(''pieces'', BStr [])]), (''nodes'', BInt 5)]) = Inl Panicked \<and>
     newBts example_codec ''d13:creation date1:x4:infod6:pieces0:e5:nodesi5ee'' = None"
    by simp
  moreover from newBts_creation_date [OF good] ingested
  have "CreationDate (zero_MetaInfo\<lparr>InfoBytes := ''d4:name0:12:piece lengthi0e6:pieces0:e'',
                         CreationDate := 7\<rparr>) = 7"
    by simp
  ultimately show ?thesis using ingested by simp
qed

text \<open>
  The claim as first stated fails: a document whose only defect for the recovery decoder
  is a \<^verbatim>\<open>creation date\<close> that is a byte string gets no candidate, while the same
  document without the date is recovered.
\<close>

theorem newBts_creation_date_counterexample:
  "Unmarshal example_codec ''d13:creation date1:x4:infod6:pieces0:e5:nodesi5ee'' =
     Inr (Some (BDict [(''creation date'', BStr ''x''),
                       (''info'', BDict [(''pieces'', BStr [])]), (''nodes'', BInt 5)])) \<and>
   newBts example_codec ''d13:creation date1:x4:infod6:pieces0:e5:nodesi5ee'' = None \<and>
   Unmarshal example_codec ''d4:infod6:pieces0:e5:nodesi5ee'' =
     Inr (Some (BDict [(''info'', BDict [(''pieces'', BStr [])]), (''nodes'', BInt 5)])) \<and>
   newBts example_codec ''d4:infod6:pieces0:e5:nodesi5ee'' =
     Some ''d4:infod4:name0:12:piece lengthi0e6:pieces0:ee''"
  by (simp add: eval_defs)

text \<open>
  C6 (as amended). In a reconstructed \<^verbatim>\<open>Info\<close> the \<^verbatim>\<open>Private\<close> flag is unset when the
  key \<^verbatim>\<open>private\<close> is absent; when the key holds an integer the flag is set, to true
  when the integer is 1 and to false for every other integer, zero or not.
\<close>

theorem newBts_info_private_flag:
  assumes "newBts_info infoDe = Inr info"
  shows "map_of infoDe ''private'' = None \<and> Private info = None \<or>
    (\<exists>n. map_of infoDe ''private'' = Some (BInt n) \<and> Private info = Some (n = 1))"
  using newBts_info_private [OF assms] newBts_info_private_typed [OF assms]
  by auto

theorem newBts_info_private_flag_witness:
  "newBts_info [(''pieces'', BStr []), (''private'', BInt 1)] =
     Inr (zero_Info\<lparr>Private := Some True\<rparr>) \<and>
   Private (zero_Info\<lparr>Private := Some True\<rparr>) = Some ((1 :: int64) = 1)"
proof -
  have run: "newBts_info [(''pieces'', BStr []), (''private'', BInt 1)] =
      Inr (zero_Info\<lparr>Private := Some True\<rparr>)"
    by (simp add: eval_defs)
  from newBts_info_private_flag [OF run] run show ?thesis by simp
qed

text \<open>
  The claim as first stated fails: \<^verbatim>\<open>private\<close> present with the nonzero value 2 gives a
  flag that is set to false, not to true.
\<close>

theorem newBts_info_private_flag_counterexample:
  "newBts_info [(''pieces'', BStr []), (''private'', BInt 2)] =
     Inr (zero_Info\<lparr>Private := Some False\<rparr>)"
  by (simp add: eval_defs)




subsection \<open>Accessors\<close>

text \<open>
  C8. \<^verbatim>\<open>UpvertedAnnounceList\<close> returns the tiered list unchanged when it overrides the
  primary announce URL, that is, when its first tier contains that URL; otherwise a
  single tier holding the primary URL when that is not empty; otherwise the empty list.
  The three examples of the spec follow.
\<close>

theorem UpvertedAnnounceList_rule:
  "(OverridesAnnounce (AnnounceList mi) (Announce mi) \<longleftrightarrow>
      (\<exists>tier tiers. AnnounceList mi = tier # tiers \<and> Announce mi \<in> set tier)) \<and>
   (OverridesAnnounce (AnnounceList mi) (Announce mi) \<longrightarrow>
      UpvertedAnnounceList mi = AnnounceList mi) \<and>
   (\<not> OverridesAnnounce (AnnounceList mi) (Announce mi) \<and> Announce mi \<noteq> [] \<longrightarrow>
      UpvertedAnnounceList mi = [[Announce mi]]) \<and>
   (\<not> OverridesAnnounce (AnnounceList mi) (Announce mi) \<and> Announce mi = [] \<longrightarrow>
      UpvertedAnnounceList mi = []) \<and>
   (Announce mi = ''http://a'' \<and> AnnounceList mi = [] \<longrightarrow>
      UpvertedAnnounceList mi = [[''http://a'']]) \<and>
   (Announce mi = ''http://a'' \<and> AnnounceList mi = [[''http://a'']] \<longrightarrow>
      UpvertedAnnounceList mi = [[''http://a'']]) \<and>
   (Announce mi = [] \<and> AnnounceList mi = [] \<longrightarrow> UpvertedAnnounceList mi = [])"
  by (auto simp: UpvertedAnnounceList_def OverridesAnnounce_def split: list.splits)

theorem UpvertedAnnounceList_rule_witness:
  "UpvertedAnnounceList (zero_MetaInfo\<lparr>Announce := ''http://a''\<rparr>) = [[''http://a'']] \<and>
   UpvertedAnnounceList (zero_MetaInfo\<lparr>Announce := ''http://a'',
       AnnounceList := [[''http://a'']]\<rparr>) = [[''http://a'']] \<and>
   UpvertedAnnounceList zero_MetaInfo = []"
  using UpvertedAnnounceList_rule [of "zero_MetaInfo\<lparr>Announce := ''http://a''\<rparr>"]
    UpvertedAnnounceList_rule [of "zero_MetaInfo\<lparr>Announce := ''http://a'',
       AnnounceList := [[''http://a'']]\<rparr>"]
    UpvertedAnnounceList_rule [of zero_MetaInfo]
  by (simp add: zero_MetaInfo_def)




text \<open>
  C10. \<^verbatim>\<open>SetDefaults\<close> clears the comment, sets the creator tag and stamps the creation
  date; every other field is unchanged.
\<close>

theorem SetDefaults_frame:
  "Comment (SetDefaults now mi) = [] \<and>
   CreatedBy (SetDefaults now mi) = ''github.com/anacrolix/torrent'' \<and>
   CreationDate (SetDefaults now mi) = now \<and>
   InfoBytes (SetDefaults now mi) = InfoBytes mi \<and>
   Announce (SetDefaults now mi) = Announce mi \<and>
   AnnounceList (SetDefaults now mi) = AnnounceList mi \<and>
   Nodes (SetDefaults now mi) = Nodes mi \<and>
   Encoding (SetDefaults now mi) = Encoding mi \<and>
   UrlList (SetDefaults now mi) = UrlList mi"
  by (simp add: SetDefaults_def)

end
